theory Spec2Isabelle
  imports Complex_Main "HOL-Library.Word"
begin

section \<open>Browser video-to-GIF converter: the FFmpegUtils class (src/utils/ffmpegUtils.js)\<close>

text \<open>
  The development embeds the class \<^verbatim>\<open>FFmpegUtils\<close> of
  \<^verbatim>\<open>src/src/utils/ffmpegUtils.js\<close>. Conventions:
  \<^item> a JavaScript number is a \<^typ>\<open>rat\<close>: finite values with exact arithmetic
    (no NaN, no infinities, no rounding error of the double format);
  \<^item> a JavaScript string is a \<^typ>\<open>string\<close>; \<^verbatim>\<open>toLowerCase\<close> maps the
    ASCII letters A-Z and leaves every other code unit as it is;
  \<^item> a thrown value is an \<^verbatim>\<open>Error\<close> object, of which only the message is kept;
  \<^item> a promise is its final outcome: resolved, rejected, or never settled;
  \<^item> the ffmpeg.wasm engine and the other services of the host (number formatting,
    \<^verbatim>\<open>fetchFile\<close>) are parameters, collected in the record \<open>host\<close>.
\<close>

subsection \<open>JavaScript primitives\<close>

text \<open>
  \<^verbatim>\<open>Math.round(x)\<close>: the integer closest to \<open>x\<close>; of two equally close integers
  the one nearer to plus infinity.
\<close>

definition Math_round :: "rat \<Rightarrow> int" where
  "Math_round x = (if x - of_int \<lfloor>x\<rfloor> < 1 / 2 then \<lfloor>x\<rfloor> else \<lfloor>x\<rfloor> + 1)"

definition toLowerCase_char :: "char \<Rightarrow> char" where
  "toLowerCase_char c =
     (let n = (of_char c :: nat) in if 65 \<le> n \<and> n \<le> 90 then char_of (n + 32) else c)"

definition toLowerCase :: "string \<Rightarrow> string" where
  "toLowerCase s = map toLowerCase_char s"

text \<open>
  \<^verbatim>\<open>s.split(sep)\<close> for a one-character separator: the pieces between the
  separators, in order; a string without separator is its own single piece, and the
  empty string gives one empty piece.
\<close>

fun split :: "char \<Rightarrow> string \<Rightarrow> string list" where
  "split sep [] = [[]]"
| "split sep (c # cs) =
     (if c = sep then [] # split sep cs
      else (case split sep cs of
              [] \<Rightarrow> [[c]]
            | p # ps \<Rightarrow> (c # p) # ps))"

text \<open>\<^verbatim>\<open>a.pop()\<close>: the last element, \<^verbatim>\<open>undefined\<close> (here \<open>None\<close>) on an empty array.\<close>

definition pop :: "'a list \<Rightarrow> 'a option" where
  "pop xs = (if xs = [] then None else Some (last xs))"

subsection \<open>getFileExtension (lines 171-173)\<close>

datatype js_error = Error (message: string)

text \<open>
  \<^verbatim>\<open>filename.split(".").pop().toLowerCase()\<close>. Calling \<^verbatim>\<open>toLowerCase\<close> on
  \<^verbatim>\<open>undefined\<close> would throw a TypeError; the branch is kept although \<open>split\<close>
  never returns an empty array.
\<close>

definition getFileExtension :: "string \<Rightarrow> js_error + string" where
  "getFileExtension filename =
     (case pop (split CHR ''.'' filename) of
        None \<Rightarrow> Inl (Error ''Cannot read properties of undefined (reading 'toLowerCase')'')
      | Some ext \<Rightarrow> Inr (toLowerCase ext))"

text \<open>Line 100: \<^verbatim>\<open>"input." + this.getFileExtension(videoFile.name)\<close>.\<close>

definition inputFileName :: "string \<Rightarrow> js_error + string" where
  "inputFileName filename =
     (case getFileExtension filename of
        Inl e \<Rightarrow> Inl e
      | Inr ext \<Rightarrow> Inr (''input.'' @ ext))"


subsection \<open>Quality to stats_mode (lines 113 and 118)\<close>

definition normalizedQuality :: "rat \<Rightarrow> rat" where
  "normalizedQuality quality = max 1 (min 100 quality)"

definition statsMode :: "rat \<Rightarrow> int" where
  "statsMode quality = max 1 (Math_round ((100 - normalizedQuality quality) / 20))"



subsection \<open>checkBrowserSupport (lines 180-191)\<close>

text \<open>
  The results of \<^verbatim>\<open>typeof\<close>, and the host facts the probe reads. A global that
  is not declared has \<^verbatim>\<open>typeof\<close> "undefined". The host is a browser page: the
  global \<^verbatim>\<open>window\<close> exists, and \<^verbatim>\<open>WebAssembly\<close> is either absent or an
  object whose property \<^verbatim>\<open>instantiate\<close> can be read.
\<close>

datatype js_type = T_undefined | T_object | T_function | T_boolean | T_number | T_string

datatype js_flag = Flag_undefined | Flag_bool bool | Flag_other






subsection \<open>The engine, the host and the state of the class\<close>

type_synonym bytes = "8 word list"

text \<open>The engine's virtual file system: the files by name.\<close>

type_synonym vfs = "string \<rightharpoonup> bytes"

text \<open>The source file handed to the conversion: \<^verbatim>\<open>videoFile.name\<close> and its bytes.\<close>

record File =
  name :: string
  content :: bytes

text \<open>The result: \<^verbatim>\<open>new Blob([data.buffer], { type: "image/gif" })\<close>.\<close>

record Blob =
  blob_data :: bytes
  blob_type :: string

text \<open>
  What one \<^verbatim>\<open>ffmpeg.run(...)\<close> does: the progress ratios it reports, the file
  system it leaves, and the error it throws, if any.
\<close>

record run_result =
  ratios :: "rat list"
  fs_after :: vfs
  thrown :: "js_error option"

text \<open>
  The collaborators outside the repository, as parameters:
  \<^item> \<open>Number_toString\<close>: the string of a number (\<^verbatim>\<open>toString()\<close>, template literals);
  \<^item> \<open>ffmpeg_load\<close>: how the bring-up \<^verbatim>\<open>this.ffmpeg.load()\<close> in flight settles
    (\<open>None\<close>: it resolves; \<open>Some e\<close>: it rejects with \<open>e\<close>);
  \<^item> \<open>fetchFile\<close>: reading the source file into a byte array;
  \<^item> \<open>ffmpeg_run\<close>: the effect of a command on the virtual file system;
  \<^item> \<open>FS_error\<close>: the error \<^verbatim>\<open>ffmpeg.FS(method, path)\<close> throws for a path that
    does not exist.
\<close>

record host =
  Number_toString :: "rat \<Rightarrow> string"
  ffmpeg_load :: "js_error option"
  fetchFile :: "File \<Rightarrow> js_error + bytes"
  ffmpeg_run :: "string list \<Rightarrow> vfs \<Rightarrow> run_result"
  FS_error :: "string \<Rightarrow> string \<Rightarrow> js_error"

text \<open>The calls made on the engine, in order.\<close>

datatype engine_call =
    CreateFFmpeg
  | Load
  | WriteFile string bytes
  | Run "string list"
  | ReadFile string
  | Unlink string

text \<open>
  The fields of the singleton (constructor, lines 7-12), with the engine's file system,
  the engine calls made so far and the calls made so far to progress sinks. A sink is
  named by a number; \<open>None\<close> is \<^verbatim>\<open>null\<close>. The field \<open>ffmpeg\<close> says whether
  \<^verbatim>\<open>this.ffmpeg\<close> holds an engine instance.
\<close>

record FFmpegUtils =
  ffmpeg :: bool
  isLoaded :: bool
  isLoading :: bool
  progressCallback :: "nat option"
  MEMFS :: vfs
  calls :: "engine_call list"
  sink_calls :: "(nat \<times> int) list"

definition constructor :: FFmpegUtils where
  "constructor =
     \<lparr>ffmpeg = False, isLoaded = False, isLoading = False, progressCallback = None,
      MEMFS = Map.empty, calls = [], sink_calls = []\<rparr>"

text \<open>A rejection carries the thrown error itself or a message string.\<close>

datatype reason = Thrown js_error | Message string

datatype 'a promise = Resolved 'a | Rejected reason | Pending

text \<open>\<^verbatim>\<open>error.message\<close> in a catch clause; a string has no such property.\<close>

fun reason_message :: "reason \<Rightarrow> string" where
  "reason_message (Thrown e) = message e"
| "reason_message (Message m) = ''undefined''"

subsection \<open>load (lines 19-63)\<close>

text \<open>The progress handler given to \<^verbatim>\<open>createFFmpeg\<close> (lines 43-49).\<close>

definition progress :: "rat \<Rightarrow> FFmpegUtils \<Rightarrow> FFmpegUtils" where
  "progress ratio s =
     (case progressCallback s of
        None \<Rightarrow> s
      | Some cb \<Rightarrow> s\<lparr>sink_calls := sink_calls s @ [(cb, Math_round (ratio * 100))]\<rparr>)"

text \<open>Lines 36-54, up to the \<^verbatim>\<open>await\<close> of the bring-up.\<close>

definition load_start :: "nat option \<Rightarrow> FFmpegUtils \<Rightarrow> FFmpegUtils" where
  "load_start cb s =
     s\<lparr>isLoading := True, progressCallback := cb, ffmpeg := True,
       calls := calls s @ [CreateFFmpeg, Load]\<rparr>"

text \<open>Lines 55-57, after the bring-up resolved.\<close>

definition load_done :: "FFmpegUtils \<Rightarrow> FFmpegUtils" where
  "load_done s = s\<lparr>isLoaded := True, isLoading := False\<rparr>"

text \<open>Lines 58-61, after the bring-up rejected.\<close>

definition load_failed :: "FFmpegUtils \<Rightarrow> FFmpegUtils" where
  "load_failed s = s\<lparr>isLoading := False\<rparr>"

text \<open>
  One call of \<open>load\<close> run to its end, with no other call starting meanwhile. When a
  bring-up is already in flight (\<open>isLoading\<close>), its continuation (lines 55-56 or 59)
  runs first; the interval of lines 27-32 then resolves the promise once it sees
  \<open>isLoaded\<close>, and never settles it otherwise.
\<close>

definition load :: "host \<Rightarrow> nat option \<Rightarrow> FFmpegUtils \<Rightarrow> unit promise \<times> FFmpegUtils" where
  "load h cb s =
     (if isLoaded s then (Resolved (), s)
      else if isLoading s then
        (case ffmpeg_load h of
           None \<Rightarrow> (Resolved (), load_done s)
         | Some e \<Rightarrow> (Pending, load_failed s))
      else
        (case ffmpeg_load h of
           None \<Rightarrow> (Resolved (), load_done (load_start cb s))
         | Some e \<Rightarrow> (Rejected (Thrown e), load_failed (load_start cb s))))"

subsection \<open>Calls of load that overlap\<close>

text \<open>
  JavaScript runs one piece of code at a time; calls of \<open>load\<close> overlap only at
  the \<^verbatim>\<open>await\<close> and at the interval. An event is: a caller calls \<open>load\<close>; the
  bring-up in flight settles; the interval of a waiting caller fires.
\<close>

datatype event = Call nat "nat option" | Settle "js_error option" | Tick nat

text \<open>
  The class state with the outcome of every caller's promise, the caller suspended
  at \<^verbatim>\<open>await this.ffmpeg.load()\<close>, and the callers whose interval is running.
\<close>

record loader =
  utils :: FFmpegUtils
  promises :: "nat \<rightharpoonup> unit promise"
  awaiting :: "nat option"
  intervals :: "nat list"

definition loader0 :: "FFmpegUtils \<Rightarrow> loader" where
  "loader0 s = \<lparr>utils = s, promises = Map.empty, awaiting = None, intervals = []\<rparr>"

fun step :: "loader \<Rightarrow> event \<Rightarrow> loader" where
  "step L (Call c cb) =
     (if isLoaded (utils L) then L\<lparr>promises := (promises L)(c \<mapsto> Resolved ())\<rparr>
      else if isLoading (utils L) then
        L\<lparr>promises := (promises L)(c \<mapsto> Pending), intervals := intervals L @ [c]\<rparr>
      else
        L\<lparr>utils := load_start cb (utils L), promises := (promises L)(c \<mapsto> Pending),
          awaiting := Some c\<rparr>)"
| "step L (Settle r) =
     (case awaiting L of
        None \<Rightarrow> L
      | Some c \<Rightarrow>
          (case r of
             None \<Rightarrow>
               L\<lparr>utils := load_done (utils L), promises := (promises L)(c \<mapsto> Resolved ()),
                 awaiting := None\<rparr>
           | Some e \<Rightarrow>
               L\<lparr>utils := load_failed (utils L),
                 promises := (promises L)(c \<mapsto> Rejected (Thrown e)), awaiting := None\<rparr>))"
| "step L (Tick c) =
     (if c \<in> set (intervals L) \<and> isLoaded (utils L) then
        L\<lparr>promises := (promises L)(c \<mapsto> Resolved ()), intervals := removeAll c (intervals L)\<rparr>
      else L)"

definition run_events :: "loader \<Rightarrow> event list \<Rightarrow> loader" where
  "run_events L es = foldl step L es"

text \<open>The number of bring-ups started: the calls of \<^verbatim>\<open>this.ffmpeg.load()\<close>.\<close>

definition bring_ups :: "engine_call list \<Rightarrow> nat" where
  "bring_ups cs = length (filter (\<lambda>c. c = Load) cs)"

subsection \<open>convertToGif (lines 76-164)\<close>

text \<open>The operations of \<^verbatim>\<open>this.ffmpeg.FS\<close> and \<^verbatim>\<open>this.ffmpeg.run\<close>.\<close>

definition FS_writeFile :: "string \<Rightarrow> bytes \<Rightarrow> FFmpegUtils \<Rightarrow> FFmpegUtils" where
  "FS_writeFile path data s =
     s\<lparr>MEMFS := (MEMFS s)(path \<mapsto> data), calls := calls s @ [WriteFile path data]\<rparr>"

definition FS_readFile :: "host \<Rightarrow> string \<Rightarrow> FFmpegUtils \<Rightarrow> (js_error + bytes) \<times> FFmpegUtils" where
  "FS_readFile h path s =
     (case MEMFS s path of
        None \<Rightarrow> (Inl (FS_error h ''readFile'' path), s\<lparr>calls := calls s @ [ReadFile path]\<rparr>)
      | Some data \<Rightarrow> (Inr data, s\<lparr>calls := calls s @ [ReadFile path]\<rparr>))"

definition FS_unlink :: "host \<Rightarrow> string \<Rightarrow> FFmpegUtils \<Rightarrow> js_error option \<times> FFmpegUtils" where
  "FS_unlink h path s =
     (case MEMFS s path of
        None \<Rightarrow> (Some (FS_error h ''unlink'' path), s\<lparr>calls := calls s @ [Unlink path]\<rparr>)
      | Some data \<Rightarrow>
          (None, s\<lparr>MEMFS := (MEMFS s)(path := None), calls := calls s @ [Unlink path]\<rparr>))"

definition run :: "host \<Rightarrow> string list \<Rightarrow> FFmpegUtils \<Rightarrow> js_error option \<times> FFmpegUtils" where
  "run h args s =
     (let r = ffmpeg_run h args (MEMFS s);
          s1 = fold progress (ratios r) (s\<lparr>calls := calls s @ [Run args]\<rparr>)
      in (thrown r, s1\<lparr>MEMFS := fs_after r\<rparr>))"

text \<open>The arguments of the two commands (lines 121-131 and 134-148).\<close>

definition palette_args ::
  "host \<Rightarrow> string \<Rightarrow> rat \<Rightarrow> rat \<Rightarrow> rat \<Rightarrow> rat \<Rightarrow> int \<Rightarrow> string list" where
  "palette_args h inputName startTime duration outputWidth fps sm =
     [''-ss'', Number_toString h startTime, ''-t'', Number_toString h duration,
      ''-i'', inputName, ''-vf'',
      ''fps='' @ Number_toString h fps @ '',scale='' @ Number_toString h outputWidth
        @ '':-1:flags=lanczos,palettegen=stats_mode='' @ Number_toString h (of_int sm),
      ''palette.png'']"

definition encode_args ::
  "host \<Rightarrow> string \<Rightarrow> rat \<Rightarrow> rat \<Rightarrow> rat \<Rightarrow> rat \<Rightarrow> string list" where
  "encode_args h inputName startTime duration outputWidth fps =
     [''-ss'', Number_toString h startTime, ''-t'', Number_toString h duration,
      ''-i'', inputName, ''-i'', ''palette.png'', ''-lavfi'',
      ''fps='' @ Number_toString h fps @ '',scale='' @ Number_toString h outputWidth
        @ '':-1:flags=lanczos [x]; [x][1:v] paletteuse=dither=bayer:bayer_scale=5'',
      ''-loop'', ''0'', ''output.gif'']"

text \<open>The catch clause of lines 160-163.\<close>

definition convert_catch :: "js_error \<Rightarrow> Blob promise" where
  "convert_catch error = Rejected (Message (''Failed to convert video: '' @ message error))"

definition InvalidRange :: reason where
  "InvalidRange = Message ''Invalid time range: end time must be greater than start time''"

text \<open>The clean-up and the result (lines 153-159), after the output was read.\<close>

definition cleanup_and_return ::
  "host \<Rightarrow> string \<Rightarrow> bytes \<Rightarrow> FFmpegUtils \<Rightarrow> Blob promise \<times> FFmpegUtils" where
  "cleanup_and_return h inputName data s =
     (case FS_unlink h inputName s of
        (Some e, s1) \<Rightarrow> (convert_catch e, s1)
      | (None, s1) \<Rightarrow>
     (case FS_unlink h ''palette.png'' s1 of
        (Some e, s2) \<Rightarrow> (convert_catch e, s2)
      | (None, s2) \<Rightarrow>
     (case FS_unlink h ''output.gif'' s2 of
        (Some e, s3) \<Rightarrow> (convert_catch e, s3)
      | (None, s3) \<Rightarrow> (Resolved \<lparr>blob_data = data, blob_type = ''image/gif''\<rparr>, s3))))"

text \<open>The two commands and the read of the output (lines 112-151).\<close>

definition transcode ::
  "host \<Rightarrow> string \<Rightarrow> rat \<Rightarrow> rat \<Rightarrow> rat \<Rightarrow> rat \<Rightarrow> rat \<Rightarrow> FFmpegUtils
     \<Rightarrow> Blob promise \<times> FFmpegUtils" where
  "transcode h inputName startTime duration outputWidth fps quality s =
     (case run h (palette_args h inputName startTime duration outputWidth fps (statsMode quality)) s of
        (Some e, s1) \<Rightarrow> (convert_catch e, s1)
      | (None, s1) \<Rightarrow>
     (case run h (encode_args h inputName startTime duration outputWidth fps) s1 of
        (Some e, s2) \<Rightarrow> (convert_catch e, s2)
      | (None, s2) \<Rightarrow>
     (case FS_readFile h ''output.gif'' s2 of
        (Inl e, s3) \<Rightarrow> (convert_catch e, s3)
      | (Inr data, s3) \<Rightarrow> cleanup_and_return h inputName data s3)))"

text \<open>The second \<^verbatim>\<open>try\<close> block (lines 99-163).\<close>

definition convertToGif_try ::
  "host \<Rightarrow> File \<Rightarrow> rat \<Rightarrow> rat \<Rightarrow> rat \<Rightarrow> rat \<Rightarrow> rat \<Rightarrow> FFmpegUtils
     \<Rightarrow> Blob promise \<times> FFmpegUtils" where
  "convertToGif_try h videoFile startTime endTime outputWidth fps quality s =
     (case inputFileName (name videoFile) of
        Inl e \<Rightarrow> (convert_catch e, s)
      | Inr inputName \<Rightarrow>
     (case fetchFile h videoFile of
        Inl e \<Rightarrow> (convert_catch e, s)
      | Inr data \<Rightarrow>
          (let s1 = FS_writeFile inputName data s;
               duration = endTime - startTime
           in if duration \<le> 0 then (Rejected InvalidRange, s1)
              else transcode h inputName startTime duration outputWidth fps quality s1)))"

text \<open>
  The first \<^verbatim>\<open>try\<close> block (lines 86-94): the sink of this conversion is stored, and
  \<open>load\<close> is called unless the engine is loaded.
\<close>

definition ensure_loaded :: "host \<Rightarrow> nat option \<Rightarrow> FFmpegUtils \<Rightarrow> unit promise \<times> FFmpegUtils" where
  "ensure_loaded h conversionProgressCallback s =
     (let s1 = s\<lparr>progressCallback := conversionProgressCallback\<rparr>
      in if \<not> isLoaded s1 then load h (progressCallback s1) s1 else (Resolved (), s1))"

text \<open>
  The whole body, with every parameter given (lines 85-164). The catch clause of lines
  95-97 turns a rejection of \<open>load\<close> into a message; a \<open>load\<close> that never settles
  leaves the conversion pending.
\<close>

definition convertToGif_body ::
  "host \<Rightarrow> File \<Rightarrow> rat \<Rightarrow> rat \<Rightarrow> rat \<Rightarrow> rat \<Rightarrow> rat \<Rightarrow> nat option \<Rightarrow> FFmpegUtils
     \<Rightarrow> Blob promise \<times> FFmpegUtils" where
  "convertToGif_body h videoFile startTime endTime outputWidth fps quality cb s =
     (case ensure_loaded h cb s of
        (Rejected r, s2) \<Rightarrow>
          (Rejected (Message (''Failed to load FFmpeg: '' @ reason_message r)), s2)
      | (Pending, s2) \<Rightarrow> (Pending, s2)
      | (Resolved u, s2) \<Rightarrow>
          convertToGif_try h videoFile startTime endTime outputWidth fps quality s2)"

text \<open>
  The parameter list (lines 76-84): an argument that is left out (or is
  \<^verbatim>\<open>undefined\<close>) takes its default.
\<close>

datatype 'a arg = Omitted | Given 'a

fun default_to :: "'a \<Rightarrow> 'a arg \<Rightarrow> 'a" where
  "default_to d Omitted = d"
| "default_to d (Given v) = v"

definition convertToGif ::
  "host \<Rightarrow> File \<Rightarrow> rat arg \<Rightarrow> rat arg \<Rightarrow> rat arg \<Rightarrow> rat arg \<Rightarrow> rat arg \<Rightarrow> nat option arg
     \<Rightarrow> FFmpegUtils \<Rightarrow> Blob promise \<times> FFmpegUtils" where
  "convertToGif h videoFile startTime endTime outputWidth fps quality conversionProgressCallback s =
     convertToGif_body h videoFile (default_to 0 startTime) (default_to 10 endTime)
       (default_to 480 outputWidth) (default_to 10 fps) (default_to 75 quality)
       (default_to None conversionProgressCallback) s"

text \<open>The commands among the engine calls.\<close>

fun commands :: "engine_call list \<Rightarrow> string list list" where
  "commands [] = []"
| "commands (Run args # cs) = args # commands cs"
| "commands (c # cs) = commands cs"

fun writes :: "engine_call list \<Rightarrow> string list" where
  "writes [] = []"
| "writes (WriteFile path data # cs) = path # writes cs"
| "writes (c # cs) = writes cs"

subsection \<open>A concrete host\<close>

text \<open>
  A host to run the functions on: numbers are printed as decimal integers (the numbers
  used below are integers), the bring-up succeeds, the source file is read as it is, and
  every command reports three ratios and writes the given bytes to the file named by
  its last argument.
\<close>

function decimal :: "nat \<Rightarrow> string" where
  "decimal n =
     (if n < 10 then [char_of (48 + n)] else decimal (n div 10) @ [char_of (48 + n mod 10)])"
  by pat_completeness auto
termination
  by (relation "measure id") auto

definition integer_toString :: "rat \<Rightarrow> string" where
  "integer_toString q =
     (if q < 0 then ''-'' @ decimal (nat (- \<lfloor>q\<rfloor>)) else decimal (nat \<lfloor>q\<rfloor>))"

definition toy_engine :: "bytes \<Rightarrow> string list \<Rightarrow> vfs \<Rightarrow> run_result" where
  "toy_engine out args fs =
     \<lparr>ratios = [0, 1 / 2, 1],
      fs_after = (case rev args of [] \<Rightarrow> fs | path # rest \<Rightarrow> fs(path \<mapsto> out)),
      thrown = None\<rparr>"

definition toy_host :: host where
  "toy_host =
     \<lparr>Number_toString = integer_toString, ffmpeg_load = None,
      fetchFile = (\<lambda>f. Inr (content f)),
      ffmpeg_run = toy_engine [71, 73, 70],
      FS_error = (\<lambda>method path. Error (''FS error: '' @ method @ '' '' @ path))\<rparr>"

text \<open>
  Engines whose commands throw, do nothing, succeed for the palette only, or report
  no progress.
\<close>

definition broken_engine :: "string list \<Rightarrow> vfs \<Rightarrow> run_result" where
  "broken_engine args fs = \<lparr>ratios = [], fs_after = fs, thrown = Some (Error ''Conversion failed'')\<rparr>"

definition idle_engine :: "string list \<Rightarrow> vfs \<Rightarrow> run_result" where
  "idle_engine args fs = \<lparr>ratios = [], fs_after = fs, thrown = None\<rparr>"

definition palette_only_engine :: "string list \<Rightarrow> vfs \<Rightarrow> run_result" where
  "palette_only_engine args fs =
     (if ''palette.png'' \<in> set args \<and> ''output.gif'' \<notin> set args then toy_engine [71, 73, 70] args fs
      else broken_engine args fs)"


definition clip :: File where
  "clip = \<lparr>name = ''Clip.MP4'', content = [1, 2, 3]\<rparr>"

text \<open>The singleton after a first \<open>load\<close> on this host.\<close>

definition ready :: FFmpegUtils where
  "ready = snd (load toy_host None constructor)"

section \<open>Properties\<close>

subsection \<open>JavaScript primitives\<close>










subsection \<open>What each operation changes\<close>

lemma commands_append: "commands (xs @ ys) = commands xs @ commands ys"
  by (induction xs rule: commands.induct) auto

lemma writes_append: "writes (xs @ ys) = writes xs @ writes ys"
  by (induction xs rule: writes.induct) auto

lemma fold_progress_frame:
  "calls (fold progress rs s) = calls s \<and> MEMFS (fold progress rs s) = MEMFS s \<and>
   isLoaded (fold progress rs s) = isLoaded s \<and> isLoading (fold progress rs s) = isLoading s \<and>
   progressCallback (fold progress rs s) = progressCallback s \<and>
   ffmpeg (fold progress rs s) = ffmpeg s"
  by (induction rs arbitrary: s) (auto simp: progress_def split: option.splits)

text \<open>Every ratio a command reports goes to the sink in place, rounded, in order.\<close>

lemma fold_progress_sink:
  "progressCallback s = Some cb \<Longrightarrow>
   sink_calls (fold progress rs s) = sink_calls s @ map (\<lambda>r. (cb, Math_round (r * 100))) rs"
  by (induction rs arbitrary: s) (auto simp: progress_def)

lemma fold_progress_no_sink: "progressCallback s = None \<Longrightarrow> fold progress rs s = s"
  by (induction rs arbitrary: s) (auto simp: progress_def)

lemma run_frame:
  "fst (run h args s) = thrown (ffmpeg_run h args (MEMFS s))"
  "calls (snd (run h args s)) = calls s @ [Run args]"
  "MEMFS (snd (run h args s)) = fs_after (ffmpeg_run h args (MEMFS s))"
  "isLoaded (snd (run h args s)) = isLoaded s"
  "isLoading (snd (run h args s)) = isLoading s"
  "progressCallback (snd (run h args s)) = progressCallback s"
  by (simp_all add: run_def Let_def fold_progress_frame)

text \<open>A command forwards the ratios it reports to the sink of the moment.\<close>

lemma run_sink_calls:
  "progressCallback s = Some cb \<Longrightarrow>
   sink_calls (snd (run h args s)) =
     sink_calls s @ map (\<lambda>r. (cb, Math_round (r * 100))) (ratios (ffmpeg_run h args (MEMFS s)))"
  by (simp add: run_def Let_def fold_progress_sink)

lemma run_eq:
  "run h args s = (e, s') \<Longrightarrow>
     e = thrown (ffmpeg_run h args (MEMFS s)) \<and> calls s' = calls s @ [Run args] \<and>
     MEMFS s' = fs_after (ffmpeg_run h args (MEMFS s)) \<and> isLoaded s' = isLoaded s \<and>
     isLoading s' = isLoading s \<and> progressCallback s' = progressCallback s"
  using run_frame [of h args s] by simp

lemma FS_readFile_eq:
  "FS_readFile h path s = (r, s') \<Longrightarrow>
     calls s' = calls s @ [ReadFile path] \<and> MEMFS s' = MEMFS s \<and> isLoaded s' = isLoaded s \<and>
     isLoading s' = isLoading s \<and> progressCallback s' = progressCallback s \<and>
     sink_calls s' = sink_calls s \<and>
     (case r of Inr data \<Rightarrow> MEMFS s path = Some data
              | Inl x \<Rightarrow> MEMFS s path = None \<and> x = FS_error h ''readFile'' path)"
  by (auto simp: FS_readFile_def split: option.splits)

lemma cleanup_Resolved:
  assumes "cleanup_and_return h inputName data s = (Resolved b, s')"
  shows "b = \<lparr>blob_data = data, blob_type = ''image/gif''\<rparr> \<and>
         MEMFS s' = (MEMFS s)(inputName := None, ''palette.png'' := None, ''output.gif'' := None) \<and>
         calls s' = calls s @ [Unlink inputName, Unlink ''palette.png'', Unlink ''output.gif'']"
  using assms
  by (auto simp: cleanup_and_return_def convert_catch_def FS_unlink_def
      split: option.splits prod.splits if_splits)

lemma transcode_Resolved:
  assumes "transcode h inputName startTime duration outputWidth fps quality s = (Resolved b, s')"
  defines "pal \<equiv> palette_args h inputName startTime duration outputWidth fps (statsMode quality)"
  defines "enc \<equiv> encode_args h inputName startTime duration outputWidth fps"
  defines "r1 \<equiv> ffmpeg_run h pal (MEMFS s)"
  defines "r2 \<equiv> ffmpeg_run h enc (fs_after r1)"
  shows "thrown r1 = None \<and> thrown r2 = None \<and>
         fs_after r2 ''output.gif'' = Some (blob_data b) \<and> blob_type b = ''image/gif'' \<and>
         commands (calls s') = commands (calls s) @ [pal, enc] \<and>
         MEMFS s' = (fs_after r2)(inputName := None, ''palette.png'' := None, ''output.gif'' := None)"
proof -
  obtain e1 s1 where run1: "run h pal s = (e1, s1)" by (cases "run h pal s")
  obtain e2 s2 where run2: "run h enc s1 = (e2, s2)" by (cases "run h enc s1")
  obtain r s3 where rd: "FS_readFile h ''output.gif'' s2 = (r, s3)"
    by (cases "FS_readFile h ''output.gif'' s2")
  from assms(1) run1 have e1: "e1 = None"
    by (cases e1) (auto simp: transcode_def pal_def convert_catch_def)
  from assms(1) run1 run2 e1 have e2: "e2 = None"
    by (cases e2) (auto simp: transcode_def pal_def enc_def convert_catch_def)
  from assms(1) run1 run2 rd e1 e2 obtain data where r: "r = Inr data"
    and cl: "cleanup_and_return h inputName data s3 = (Resolved b, s')"
    by (cases r) (auto simp: transcode_def pal_def enc_def convert_catch_def)
  note f1 = run_eq [OF run1] and f2 = run_eq [OF run2] and f3 = FS_readFile_eq [OF rd]
    and f4 = cleanup_Resolved [OF cl]
  from f1 e1 have "thrown r1 = None" by (simp add: r1_def)
  moreover from f1 f2 e2 have "thrown r2 = None" by (simp add: r2_def r1_def)
  moreover from f1 f2 f3 r f4 have "fs_after r2 ''output.gif'' = Some (blob_data b)"
    by (simp add: r2_def r1_def)
  moreover from f4 have "blob_type b = ''image/gif''" by simp
  moreover from f1 f2 f3 f4 have "commands (calls s') = commands (calls s) @ [pal, enc]"
    by (simp add: commands_append)
  moreover from f1 f2 f3 f4
  have "MEMFS s' = (fs_after r2)(inputName := None, ''palette.png'' := None, ''output.gif'' := None)"
    by (simp add: r2_def r1_def)
  ultimately show ?thesis by simp
qed

lemma load_eq:
  assumes "load h cb s = (p, s')"
  shows "commands (calls s') = commands (calls s) \<and> writes (calls s') = writes (calls s) \<and>
         MEMFS s' = MEMFS s \<and> sink_calls s' = sink_calls s \<and>
         (p = Resolved () \<longleftrightarrow> isLoaded s') \<and>
         (isLoaded s' \<longleftrightarrow> isLoaded s \<or> ffmpeg_load h = None) \<and>
         (isLoaded s \<or> isLoading s \<longrightarrow> progressCallback s' = progressCallback s) \<and>
         (\<not> isLoaded s \<and> \<not> isLoading s \<longrightarrow> progressCallback s' = cb)"
  using assms
  by (auto simp: load_def load_start_def load_done_def load_failed_def commands_append
      writes_append split: if_splits option.splits)

lemma ensure_loaded_eq:
  assumes "ensure_loaded h cb s = (p, s')"
  shows "commands (calls s') = commands (calls s) \<and> writes (calls s') = writes (calls s) \<and>
         MEMFS s' = MEMFS s \<and> sink_calls s' = sink_calls s \<and> progressCallback s' = cb \<and>
         (p = Resolved () \<longleftrightarrow> isLoaded s') \<and>
         (isLoaded s' \<longleftrightarrow> isLoaded s \<or> ffmpeg_load h = None)"
proof (cases "isLoaded s")
  case True
  with assms show ?thesis by (auto simp: ensure_loaded_def Let_def)
next
  case False
  with assms have "load h cb (s\<lparr>progressCallback := cb\<rparr>) = (p, s')"
    by (simp add: ensure_loaded_def Let_def)
  from load_eq [OF this] False show ?thesis by auto
qed

lemma convertToGif_try_Resolved:
  assumes "convertToGif_try h videoFile startTime endTime outputWidth fps quality s = (Resolved b, s')"
  shows "\<exists>inputName data.
           inputFileName (name videoFile) = Inr inputName \<and> fetchFile h videoFile = Inr data \<and>
           0 < endTime - startTime \<and>
           transcode h inputName startTime (endTime - startTime) outputWidth fps quality
             (FS_writeFile inputName data s) = (Resolved b, s')"
  using assms
  by (auto simp: convertToGif_try_def Let_def convert_catch_def split: sum.splits if_splits)

lemma convertToGif_body_Resolved:
  assumes "convertToGif_body h videoFile startTime endTime outputWidth fps quality cb s = (Resolved b, s')"
  shows "\<exists>inputName data s1.
           inputFileName (name videoFile) = Inr inputName \<and> fetchFile h videoFile = Inr data \<and>
           0 < endTime - startTime \<and> ensure_loaded h cb s = (Resolved (), s1) \<and>
           transcode h inputName startTime (endTime - startTime) outputWidth fps quality
             (FS_writeFile inputName data s1) = (Resolved b, s')"
proof -
  obtain p s1 where el: "ensure_loaded h cb s = (p, s1)" by (cases "ensure_loaded h cb s")
  with assms have p: "p = Resolved ()"
    and "convertToGif_try h videoFile startTime endTime outputWidth fps quality s1 = (Resolved b, s')"
    by (cases p; simp add: convertToGif_body_def)+
  from convertToGif_try_Resolved [OF this(2)] el p show ?thesis by blast
qed


subsection \<open>Runs on the concrete host\<close>

lemma ready_eq:
  "ready =
     \<lparr>ffmpeg = True, isLoaded = True, isLoading = False, progressCallback = None,
      MEMFS = Map.empty, calls = [CreateFFmpeg, Load], sink_calls = []\<rparr>"
  by (simp add: ready_def load_def load_start_def load_done_def constructor_def toy_host_def)

lemma toy_strings:
  "integer_toString 2 = ''2''" "integer_toString 5 = ''5''" "integer_toString 10 = ''10''"
  "integer_toString 480 = ''480''" "integer_toString 1 = ''1''"
  by code_simp+

lemma statsMode_75: "statsMode 75 = 1"
  by code_simp

lemma clip_input: "inputFileName (name clip) = Inr ''input.mp4''"
  by code_simp

lemma toy_run_resolves:
  "fst (convertToGif_body toy_host clip 2 7 480 10 75 None ready) =
     Resolved \<lparr>blob_data = [71, 73, 70], blob_type = ''image/gif''\<rparr>"
  by code_simp

lemma toy_run_commands:
  "palette_args toy_host ''input.mp4'' 2 (7 - 2) 480 10 (statsMode 75) =
     [''-ss'', ''2'', ''-t'', ''5'', ''-i'', ''input.mp4'', ''-vf'',
      ''fps=10,scale=480:-1:flags=lanczos,palettegen=stats_mode=1'', ''palette.png'']"
  "encode_args toy_host ''input.mp4'' 2 (7 - 2) 480 10 =
     [''-ss'', ''2'', ''-t'', ''5'', ''-i'', ''input.mp4'', ''-i'', ''palette.png'', ''-lavfi'',
      ''fps=10,scale=480:-1:flags=lanczos [x]; [x][1:v] paletteuse=dither=bayer:bayer_scale=5'',
      ''-loop'', ''0'', ''output.gif'']"
  by (simp_all add: palette_args_def encode_args_def toy_host_def toy_strings statsMode_75)

subsection \<open>Overlapping calls of load\<close>

lemma run_events_Cons: "run_events L (e # es) = run_events (step L e) es"
  by (simp add: run_events_def)

lemma run_events_append: "run_events L (es @ es') = run_events (run_events L es) es'"
  by (simp add: run_events_def)

text \<open>While the engine is not loaded, an interval that fires changes nothing.\<close>

lemma ticks_before_loaded: "\<not> isLoaded (utils L) \<Longrightarrow> run_events L (map Tick cs) = L"
  by (induction cs) (simp_all add: run_events_def)

text \<open>While a bring-up is in flight, further calls leave the class state as it is.\<close>

lemma calls_while_loading:
  "isLoading (utils L) \<Longrightarrow> \<not> isLoaded (utils L) \<Longrightarrow>
   utils (run_events L (map (\<lambda>(c, cb). Call c cb) xs)) = utils L \<and>
   awaiting (run_events L (map (\<lambda>(c, cb). Call c cb) xs)) = awaiting L"
proof (induction xs arbitrary: L)
  case Nil
  show ?case by (simp add: run_events_def)
next
  case (Cons x xs)
  obtain c cb where x: "x = (c, cb)" by (cases x)
  let ?L = "step L (Call c cb)"
  from Cons.prems have u: "utils ?L = utils L" "awaiting ?L = awaiting L" by simp_all
  with Cons.prems Cons.IH [of ?L] x show ?case
    by (simp add: run_events_Cons)
qed

text \<open>
  One or more calls made before the bring-up settles start exactly one bring-up,
  whatever their number.
\<close>

lemma overlapping_calls_one_bring_up:
  assumes "\<not> isLoaded s" "\<not> isLoading s"
  shows "bring_ups (calls (utils (run_events (loader0 s) (map (\<lambda>(c, cb). Call c cb) (x # xs))))) =
           bring_ups (calls s) + 1"
proof -
  obtain c cb where x: "x = (c, cb)" by (cases x)
  let ?L = "step (loader0 s) (Call c cb)"
  from assms have u: "utils ?L = load_start cb s"
    by (simp add: loader0_def)
  then have "isLoading (utils ?L)" "\<not> isLoaded (utils ?L)"
    using assms by (simp_all add: load_start_def)
  from calls_while_loading [OF this, of xs] u x show ?thesis
    by (simp add: run_events_Cons bring_ups_def load_start_def)
qed

text \<open>When the bring-up succeeds, the waiting callers resolve at their next interval.\<close>

lemma three_callers_success:
  "promises (run_events (loader0 constructor)
      [Call 0 None, Call 1 None, Call 2 None, Settle None, Tick 1, Tick 2]) =
     [0 \<mapsto> Resolved (), 1 \<mapsto> Resolved (), 2 \<mapsto> Resolved ()]"
  by (simp add: run_events_def loader0_def constructor_def load_start_def load_done_def fun_eq_iff)

text \<open>
  A conversion started while another caller's bring-up is in flight never settles when
  that bring-up fails.
\<close>

lemma convert_while_loading_pending:
  "isLoading s \<Longrightarrow> \<not> isLoaded s \<Longrightarrow> ffmpeg_load h = Some e \<Longrightarrow>
   fst (convertToGif_body h videoFile startTime endTime outputWidth fps quality cb s) = Pending"
  by (simp add: convertToGif_body_def ensure_loaded_def load_def)

text \<open>
  Claim C3. Two callers call \<open>load\<close> on a fresh singleton, the second while the
  bring-up of the first is in flight, and the bring-up fails. One bring-up was started
  and the first caller's promise rejects with the error; the promise of the second
  caller stays pending however often its interval fires, where the claim has it
  settle with the same error.
\<close>

theorem waiting_caller_never_settles:
  "bring_ups (calls (utils (run_events (loader0 constructor)
      [Call 0 None, Call 1 None, Settle (Some (Error ''no network''))]))) = 1 \<and>
   promises (run_events (loader0 constructor)
      [Call 0 None, Call 1 None, Settle (Some (Error ''no network''))]) 0 =
     Some (Rejected (Thrown (Error ''no network''))) \<and>
   (\<forall>cs. promises (run_events (loader0 constructor)
      ([Call 0 None, Call 1 None, Settle (Some (Error ''no network''))] @ map Tick cs)) 1 =
     Some Pending)"
proof -
  let ?L = "run_events (loader0 constructor)
      [Call 0 None, Call 1 None, Settle (Some (Error ''no network''))]"
  have a: "bring_ups (calls (utils ?L)) = 1"
    "promises ?L 0 = Some (Rejected (Thrown (Error ''no network'')))"
    "promises ?L 1 = Some Pending" "\<not> isLoaded (utils ?L)"
    by (simp_all add: run_events_def loader0_def constructor_def load_start_def load_failed_def
        bring_ups_def)
  from ticks_before_loaded [OF a(4)] a show ?thesis
    by (simp only: run_events_append) simp
qed

subsection \<open>Clean-up of the staged files\<close>

text \<open>A conversion that resolves has removed the three staged files.\<close>

lemma resolved_conversion_is_clean:
  assumes "convertToGif_body h videoFile startTime endTime outputWidth fps quality cb s = (Resolved b, s')"
    and "inputFileName (name videoFile) = Inr inputName"
  shows "MEMFS s' inputName = None \<and> MEMFS s' ''palette.png'' = None \<and>
         MEMFS s' ''output.gif'' = None"
proof -
  from convertToGif_body_Resolved [OF assms(1)] assms(2) obtain data s1 where
    "transcode h inputName startTime (endTime - startTime) outputWidth fps quality
       (FS_writeFile inputName data s1) = (Resolved b, s')"
    by auto
  from transcode_Resolved [OF this] show ?thesis by simp
qed

text \<open>
  Claim C1. The claim has the three staged files absent after every conversion that
  began staging. In the code only the path that resolves unlinks them. On the loaded
  engine: when the commands throw, the conversion rejects and the staged input is
  still there; when the commands write nothing, the read of the output throws and the
  input is still there; when only the second command throws, the input and the palette
  are still there; and for an empty time range the input is staged before the range is
  checked and is never removed.
\<close>

theorem convertToGif_failure_leaves_files:
  "fst (convertToGif_body (toy_host\<lparr>ffmpeg_run := broken_engine\<rparr>) clip 2 7 480 10 75 None ready) =
     Rejected (Message ''Failed to convert video: Conversion failed'') \<and>
   MEMFS (snd (convertToGif_body (toy_host\<lparr>ffmpeg_run := broken_engine\<rparr>) clip 2 7 480 10 75
     None ready)) ''input.mp4'' = Some [1, 2, 3] \<and>
   fst (convertToGif_body (toy_host\<lparr>ffmpeg_run := idle_engine\<rparr>) clip 2 7 480 10 75 None ready) =
     Rejected (Message ''Failed to convert video: FS error: readFile output.gif'') \<and>
   MEMFS (snd (convertToGif_body (toy_host\<lparr>ffmpeg_run := idle_engine\<rparr>) clip 2 7 480 10 75
     None ready)) ''input.mp4'' = Some [1, 2, 3] \<and>
   fst (convertToGif_body (toy_host\<lparr>ffmpeg_run := palette_only_engine\<rparr>) clip 2 7 480 10 75
     None ready) = Rejected (Message ''Failed to convert video: Conversion failed'') \<and>
   MEMFS (snd (convertToGif_body (toy_host\<lparr>ffmpeg_run := palette_only_engine\<rparr>) clip 2 7 480
     10 75 None ready)) ''input.mp4'' = Some [1, 2, 3] \<and>
   MEMFS (snd (convertToGif_body (toy_host\<lparr>ffmpeg_run := palette_only_engine\<rparr>) clip 2 7 480
     10 75 None ready)) ''palette.png'' = Some [71, 73, 70] \<and>
   fst (convertToGif_body toy_host clip 7 2 480 10 75 None ready) = Rejected InvalidRange \<and>
   MEMFS (snd (convertToGif_body toy_host clip 7 2 480 10 75 None ready)) ''input.mp4'' =
     Some [1, 2, 3]"
  by code_simp

subsection \<open>The time range\<close>




subsection \<open>Quality and stats_mode\<close>




subsection \<open>The capability probe\<close>


subsection \<open>A conversion that resolves\<close>

text \<open>
  Claim C6, as amended. A conversion that resolves has issued exactly two engine
  commands, the palette command and then the encode command, the second run on the
  file system the first one left; both start with \<open>-ss startTime -t (endTime -
  startTime)\<close>, the range is not empty, and the result is tagged \<open>image/gif\<close> and
  holds the bytes the engine left in \<open>output.gif\<close>. (The claim also has the buffer
  non-empty; the code returns what the engine wrote, whatever its length.)
\<close>

theorem convertToGif_resolved:
  assumes "convertToGif_body h videoFile startTime endTime outputWidth fps quality cb s = (Resolved b, s')"
  shows "\<exists>inputName data.
           inputFileName (name videoFile) = Inr inputName \<and> fetchFile h videoFile = Inr data \<and>
           0 < endTime - startTime \<and>
           (let duration = endTime - startTime;
                pal = palette_args h inputName startTime duration outputWidth fps (statsMode quality);
                enc = encode_args h inputName startTime duration outputWidth fps;
                r1 = ffmpeg_run h pal ((MEMFS s)(inputName \<mapsto> data));
                r2 = ffmpeg_run h enc (fs_after r1)
            in commands (calls s') = commands (calls s) @ [pal, enc] \<and>
               take 4 pal = [''-ss'', Number_toString h startTime, ''-t'', Number_toString h duration] \<and>
               take 4 enc = [''-ss'', Number_toString h startTime, ''-t'', Number_toString h duration] \<and>
               thrown r1 = None \<and> thrown r2 = None \<and>
               fs_after r2 ''output.gif'' = Some (blob_data b) \<and> blob_type b = ''image/gif'')"
proof -
  from convertToGif_body_Resolved [OF assms] obtain inputName data s1 where
    nm: "inputFileName (name videoFile) = Inr inputName" and
    ff: "fetchFile h videoFile = Inr data" and
    pos: "0 < endTime - startTime" and
    el: "ensure_loaded h cb s = (Resolved (), s1)" and
    tr: "transcode h inputName startTime (endTime - startTime) outputWidth fps quality
           (FS_writeFile inputName data s1) = (Resolved b, s')"
    by blast
  note f = ensure_loaded_eq [OF el] and g = transcode_Resolved [OF tr]
  have w: "MEMFS (FS_writeFile inputName data s1) = (MEMFS s)(inputName \<mapsto> data)"
    "commands (calls (FS_writeFile inputName data s1)) = commands (calls s)"
    using f by (simp_all add: FS_writeFile_def commands_append)
  from g w have "let duration = endTime - startTime;
                pal = palette_args h inputName startTime duration outputWidth fps (statsMode quality);
                enc = encode_args h inputName startTime duration outputWidth fps;
                r1 = ffmpeg_run h pal ((MEMFS s)(inputName \<mapsto> data));
                r2 = ffmpeg_run h enc (fs_after r1)
            in commands (calls s') = commands (calls s) @ [pal, enc] \<and>
               take 4 pal = [''-ss'', Number_toString h startTime, ''-t'', Number_toString h duration] \<and>
               take 4 enc = [''-ss'', Number_toString h startTime, ''-t'', Number_toString h duration] \<and>
               thrown r1 = None \<and> thrown r2 = None \<and>
               fs_after r2 ''output.gif'' = Some (blob_data b) \<and> blob_type b = ''image/gif''"
    by (simp add: Let_def palette_args_def encode_args_def)
  with nm ff pos show ?thesis by blast
qed

text \<open>
  The scenario of the specification: start 2, end 7, width 480, 10 frames per second,
  quality 75. The duration is 5, the stats_mode 1, and both commands carry
  \<open>-ss 2 -t 5\<close>.
\<close>

theorem convertToGif_resolved_witness:
  "fst (convertToGif_body toy_host clip 2 7 480 10 75 None ready) =
     Resolved \<lparr>blob_data = [71, 73, 70], blob_type = ''image/gif''\<rparr> \<and>
   (7::rat) - 2 = 5 \<and> statsMode 75 = 1 \<and>
   commands (calls (snd (convertToGif_body toy_host clip 2 7 480 10 75 None ready))) =
     [[''-ss'', ''2'', ''-t'', ''5'', ''-i'', ''input.mp4'', ''-vf'',
       ''fps=10,scale=480:-1:flags=lanczos,palettegen=stats_mode=1'', ''palette.png''],
      [''-ss'', ''2'', ''-t'', ''5'', ''-i'', ''input.mp4'', ''-i'', ''palette.png'', ''-lavfi'',
       ''fps=10,scale=480:-1:flags=lanczos [x]; [x][1:v] paletteuse=dither=bayer:bayer_scale=5'',
       ''-loop'', ''0'', ''output.gif'']]"
proof -
  have run: "convertToGif_body toy_host clip 2 7 480 10 75 None ready =
      (Resolved \<lparr>blob_data = [71, 73, 70], blob_type = ''image/gif''\<rparr>,
       snd (convertToGif_body toy_host clip 2 7 480 10 75 None ready))"
    using toy_run_resolves by (simp add: prod_eq_iff)
  from convertToGif_resolved [OF run] clip_input
  have "commands (calls (snd (convertToGif_body toy_host clip 2 7 480 10 75 None ready))) =
      commands (calls ready) @
      [palette_args toy_host ''input.mp4'' 2 (7 - 2) 480 10 (statsMode 75),
       encode_args toy_host ''input.mp4'' 2 (7 - 2) 480 10]"
    by (auto simp: Let_def)
  then show ?thesis
    using toy_run_resolves
    by (simp only: toy_run_commands) (simp add: statsMode_75 ready_eq)
qed

text \<open>
  The claim as stated fails: with an engine that writes an empty \<open>output.gif\<close> the
  same conversion resolves with an empty buffer.
\<close>

theorem empty_output_resolves:
  "fst (convertToGif_body (toy_host\<lparr>ffmpeg_run := toy_engine []\<rparr>) clip 2 7 480 10 75 None ready) =
     Resolved \<lparr>blob_data = [], blob_type = ''image/gif''\<rparr>"
  by code_simp

subsection \<open>Progress\<close>



subsection \<open>A bring-up that fails\<close>

text \<open>
  Claim C8, as amended. For a conversion called while the engine is neither loaded
  nor loading, if the bring-up fails with an error, \<open>load\<close> rejects with that
  error and the conversion rejects with the string \<open>Failed to load FFmpeg: \<close>
  followed by the message of the error; the only engine calls are the creation and the
  bring-up, and the engine is left neither loaded nor loading.
\<close>

theorem load_failure_message:
  assumes "\<not> isLoaded s" "\<not> isLoading s" "ffmpeg_load h = Some e"
  shows "fst (convertToGif_body h videoFile startTime endTime outputWidth fps quality cb s) =
           Rejected (Message (''Failed to load FFmpeg: '' @ message e)) \<and>
         fst (load h cb s) = Rejected (Thrown e) \<and>
         calls (snd (convertToGif_body h videoFile startTime endTime outputWidth fps quality cb s)) =
           calls s @ [CreateFFmpeg, Load] \<and>
         \<not> isLoaded (snd (convertToGif_body h videoFile startTime endTime outputWidth fps quality cb s)) \<and>
         \<not> isLoading (snd (convertToGif_body h videoFile startTime endTime outputWidth fps quality cb s))"
  using assms
  by (simp add: convertToGif_body_def ensure_loaded_def load_def load_start_def load_failed_def)

theorem load_failure_message_witness:
  "\<not> isLoaded constructor \<and> \<not> isLoading constructor \<and>
   ffmpeg_load (toy_host\<lparr>ffmpeg_load := Some (Error ''no network'')\<rparr>) = Some (Error ''no network'') \<and>
   fst (convertToGif_body (toy_host\<lparr>ffmpeg_load := Some (Error ''no network'')\<rparr>) clip 2 7 480 10 75
          None constructor) = Rejected (Message ''Failed to load FFmpeg: no network'')"
proof -
  have a: "\<not> isLoaded constructor" "\<not> isLoading constructor"
    "ffmpeg_load (toy_host\<lparr>ffmpeg_load := Some (Error ''no network'')\<rparr>) = Some (Error ''no network'')"
    by (simp_all add: constructor_def)
  from load_failure_message [OF a, of clip 2 7 480 10 75 None] a show ?thesis
    by simp
qed

text \<open>
  The claim as stated fails: \<open>load\<close> rejects with the error of the bring-up, and the
  conversion rejects with another value, a string built from the error's message.
\<close>

theorem load_failure_is_wrapped:
  "fst (load (toy_host\<lparr>ffmpeg_load := Some (Error ''no network'')\<rparr>) None constructor) =
     Rejected (Thrown (Error ''no network'')) \<and>
   fst (convertToGif_body (toy_host\<lparr>ffmpeg_load := Some (Error ''no network'')\<rparr>) clip 2 7 480 10 75
          None constructor) \<noteq> Rejected (Thrown (Error ''no network''))"
  by code_simp

subsection \<open>The staged input name\<close>



subsection \<open>Default parameters\<close>

text \<open>
  Claim C10. Leaving a parameter out is the same as passing its default: start 0,
  end 10, width 480, 10 frames per second, quality 75, and no progress callback.
\<close>

theorem convertToGif_defaults:
  "convertToGif h f Omitted e w r q c s = convertToGif h f (Given 0) e w r q c s \<and>
   convertToGif h f b Omitted w r q c s = convertToGif h f b (Given 10) w r q c s \<and>
   convertToGif h f b e Omitted r q c s = convertToGif h f b e (Given 480) r q c s \<and>
   convertToGif h f b e w Omitted q c s = convertToGif h f b e w (Given 10) q c s \<and>
   convertToGif h f b e w r Omitted c s = convertToGif h f b e w r (Given 75) c s \<and>
   convertToGif h f b e w r q Omitted s = convertToGif h f b e w r q (Given None) s \<and>
   convertToGif h f Omitted Omitted Omitted Omitted Omitted Omitted s =
     convertToGif_body h f 0 10 480 10 75 None s"
  by (simp add: convertToGif_def)

end
